theory Spec2Isabelle
  imports Main "HOL-Library.Word" "HOL-Library.Sublist"
begin

section \<open>Strings of the chat client\<close>

text \<open>
  The chat page is TypeScript: a string is a sequence of 16-bit code units. The string
  literals of the page are ASCII and are written with \<open>lit\<close>.
\<close>

type_synonym jsstring = "16 word list"

definition lit :: "string \<Rightarrow> jsstring" where
  "lit s = map of_char s"

text \<open>
  \<open>String.prototype.trim\<close> removes the white space and line terminator code units of
  ECMAScript from both ends: TAB, LF, VT, FF, CR, SP, NBSP, U+1680, U+2000 to U+200A,
  U+2028, U+2029, U+202F, U+205F, U+3000 and U+FEFF.
\<close>

definition is_space :: "16 word \<Rightarrow> bool" where
  "is_space c \<longleftrightarrow>
     c = 0x09 \<or> c = 0x0A \<or> c = 0x0B \<or> c = 0x0C \<or> c = 0x0D \<or> c = 0x20 \<or> c = 0xA0 \<or>
     c = 0x1680 \<or> (0x2000 \<le> c \<and> c \<le> 0x200A) \<or> c = 0x2028 \<or> c = 0x2029 \<or>
     c = 0x202F \<or> c = 0x205F \<or> c = 0x3000 \<or> c = 0xFEFF"

definition trim :: "jsstring \<Rightarrow> jsstring" where
  "trim s = rev (dropWhile is_space (rev (dropWhile is_space s)))"

text \<open>\<open>String.prototype.includes\<close>: the argument occurs as a contiguous run.\<close>

fun includes_str :: "jsstring \<Rightarrow> jsstring \<Rightarrow> bool" where
  "includes_str [] needle = (needle = [])"
| "includes_str (c # cs) needle = (prefix needle (c # cs) \<or> includes_str cs needle)"

text \<open>
  A string in a boolean position (\<open>a || b\<close>, \<open>if (a)\<close>): \<open>undefined\<close> and the empty
  string are falsy. An absent property is \<open>None\<close>.
\<close>

fun truthy :: "jsstring option \<Rightarrow> bool" where
  "truthy None = False"
| "truthy (Some s) = (s \<noteq> [])"

text \<open>A status code inside a template literal is printed in decimal.\<close>

definition digit :: "nat \<Rightarrow> 16 word" where
  "digit d = of_nat (48 + d)"

function decimal :: "nat \<Rightarrow> jsstring" where
  "decimal n = (if n < 10 then [digit n] else decimal (n div 10) @ [digit (n mod 10)])"
  by pat_completeness auto
termination
  by (relation "measure id") auto

declare decimal.simps [simp del]

section \<open>Data of the chat page\<close>

datatype Role = User | Assistant

record Message =
  role :: Role
  content :: jsstring
  timestamp :: nat

text \<open>An entry of \<open>conversation_history\<close>: role and content only.\<close>

record history_entry =
  entry_role :: Role
  entry_content :: jsstring

text \<open>The body posted to \<open>/api/chat\<close>.\<close>

record chat_request =
  message :: jsstring
  conversation_history :: "history_entry list"

text \<open>
  The body of an answer, as far as the page reads it: \<open>response\<close> on success,
  \<open>detail\<close> or \<open>message\<close> on failure.
\<close>

record payload =
  response :: "jsstring option"
  detail :: "jsstring option"
  data_message :: "jsstring option"

record http_response =
  status :: nat
  data :: "payload option"

text \<open>
  What the catch block reads of a caught error: \<open>error.response\<close>, whether
  \<open>error.request\<close> is there, \<open>error.code\<close> and \<open>error.message\<close>.
\<close>

record caught_error =
  err_response :: "http_response option"
  err_request :: bool
  err_code :: "jsstring option"
  err_message :: "jsstring option"

text \<open>The awaited post either resolves with a response or rejects with an error.\<close>

datatype outcome = Resolved http_response | Rejected caught_error

text \<open>The state of the \<open>Home\<close> component.\<close>

record chat_state =
  messages :: "Message list"
  input :: jsstring
  isLoading :: bool

definition greeting :: jsstring where
  "greeting = lit ''Hello! I'm your dental practice assistant. How can I help you today?''"

text \<open>The initial state; \<open>t0\<close> is the clock at the first render.\<close>

definition Home :: "nat \<Rightarrow> chat_state" where
  "Home t0 = \<lparr>messages = [\<lparr>role = Assistant, content = greeting, timestamp = t0\<rparr>],
              input = [], isLoading = False\<rparr>"

section \<open>handleSend\<close>

subsection \<open>The fixed texts of the catch block\<close>

text \<open>
  \<open>errorContent\<close> starts as a general apology, and every branch of the catch block
  assigns it again: the texts below are the ones a user can see.
\<close>

definition msg_402 :: jsstring where
  "msg_402 = lit ''I'm temporarily unavailable due to API service issues. Please try again in a few moments, or contact us directly at +1-555-0123.''"

definition msg_401 :: jsstring where
  "msg_401 = lit ''There's an authentication issue. Please refresh the page and try again.''"

definition msg_500 :: jsstring where
  "msg_500 = lit ''The server encountered an error. Please try again in a moment.''"

definition msg_400 :: jsstring where
  "msg_400 = lit ''There was an issue with your request. Please try rephrasing your message.''"

definition msg_status :: "nat \<Rightarrow> jsstring" where
  "msg_status s = lit ''Server error ('' @ decimal s @ lit ''). Please try again.''"

definition msg_timeout :: jsstring where
  "msg_timeout = lit ''The request took too long. This might be due to high demand. Please try again with a shorter message.''"

definition msg_connect :: jsstring where
  "msg_connect = lit ''Unable to connect to the server. Please check your internet connection and try again.''"

definition msg_unexpected :: jsstring where
  "msg_unexpected = lit ''An unexpected error occurred. Please try again.''"

definition msg_invalid :: jsstring where
  "msg_invalid = lit ''Invalid response from server''"

subsection \<open>The catch block\<close>

text \<open>
  \<open>a || b\<close> on strings: \<open>a\<close> when it is truthy, \<open>b\<close> otherwise.
\<close>

definition or_else :: "jsstring option \<Rightarrow> jsstring \<Rightarrow> jsstring" where
  "or_else a b = (case a of None \<Rightarrow> b | Some s \<Rightarrow> if s = [] then b else s)"

text \<open>
  \<open>error.response.data?.detail || error.response.data?.message || ''\<close>
\<close>

definition detail_of :: "http_response \<Rightarrow> jsstring" where
  "detail_of r =
     (case data r of
        None \<Rightarrow> []
      | Some d \<Rightarrow> or_else (detail d) (or_else (data_message d) []))"

text \<open>
  The test of the branch for a request that got no response:
  \<open>error.code === 'ECONNABORTED' || error.message?.includes('timeout')\<close>
\<close>

definition timed_out :: "caught_error \<Rightarrow> bool" where
  "timed_out e \<longleftrightarrow>
     err_code e = Some (lit ''ECONNABORTED'')
     \<or> (case err_message e of None \<Rightarrow> False | Some m \<Rightarrow> includes_str m (lit ''timeout''))"

text \<open>The text the catch block computes for a caught error.\<close>

definition errorContent :: "caught_error \<Rightarrow> jsstring" where
  "errorContent e =
     (case err_response e of
        Some r \<Rightarrow>
          (if status r = 402 then msg_402
           else if status r = 401 then msg_401
           else if status r = 500 then or_else (Some (detail_of r)) msg_500
           else if status r = 400 then or_else (Some (detail_of r)) msg_400
           else or_else (Some (detail_of r)) (msg_status (status r)))
      | None \<Rightarrow>
          (if err_request e then (if timed_out e then msg_timeout else msg_connect)
           else or_else (err_message e) msg_unexpected))"

text \<open>
  The error thrown in the try block when a resolved answer carries no usable
  \<open>response\<close>: a plain \<open>Error\<close> with a message only.
\<close>

definition invalid_response_error :: caught_error where
  "invalid_response_error =
     \<lparr>err_response = None, err_request = False, err_code = None,
      err_message = Some msg_invalid\<rparr>"

subsection \<open>The try block after the await\<close>

text \<open>
  How the try block ends for an outcome of the post: with the \<open>response\<close> text of a
  resolved answer when \<open>response.data && response.data.response\<close> is truthy, in the
  catch block otherwise (with the rejection, or with the error thrown for an answer
  that has no usable \<open>response\<close>).
\<close>

datatype tried = Answer jsstring | Caught caught_error

definition try_block :: "outcome \<Rightarrow> tried" where
  "try_block out =
     (case out of
        Resolved r \<Rightarrow>
          (case data r of
             None \<Rightarrow> Caught invalid_response_error
           | Some d \<Rightarrow>
               (case response d of
                  None \<Rightarrow> Caught invalid_response_error
                | Some s \<Rightarrow> if s = [] then Caught invalid_response_error else Answer s))
      | Rejected e \<Rightarrow> Caught e)"

text \<open>The content of the assistant message appended for an outcome.\<close>

definition replyContent :: "outcome \<Rightarrow> jsstring" where
  "replyContent out = (case try_block out of Answer s \<Rightarrow> s | Caught e \<Rightarrow> errorContent e)"

subsection \<open>The two halves of handleSend\<close>

text \<open>The guard of the first line: blank input or a turn already loading.\<close>

definition blocked :: "chat_state \<Rightarrow> bool" where
  "blocked st \<longleftrightarrow> trim (input st) = [] \<or> isLoading st"

definition userMessage :: "chat_state \<Rightarrow> nat \<Rightarrow> Message" where
  "userMessage st t = \<lparr>role = User, content = trim (input st), timestamp = t\<rparr>"

text \<open>
  The body posted: \<open>messageToSend\<close> and the history mapped from \<open>messages\<close> of the
  render the handler was created in, which is the list before the user message is
  appended.
\<close>

definition conversationHistory :: "Message list \<Rightarrow> history_entry list" where
  "conversationHistory ms =
     map (\<lambda>msg. \<lparr>entry_role = role msg, entry_content = content msg\<rparr>) ms"

definition request_of :: "chat_state \<Rightarrow> chat_request" where
  "request_of st =
     \<lparr>message = trim (input st), conversation_history = conversationHistory (messages st)\<rparr>"

text \<open>The synchronous part, up to the await: the three state updates.\<close>

definition dispatch :: "chat_state \<Rightarrow> nat \<Rightarrow> chat_state" where
  "dispatch st t =
     st\<lparr>messages := messages st @ [userMessage st t], input := [], isLoading := True\<rparr>"

text \<open>The continuation after the await: one assistant message, then the finally block.\<close>

definition settle :: "chat_state \<Rightarrow> outcome \<Rightarrow> nat \<Rightarrow> chat_state" where
  "settle st out t =
     st\<lparr>messages := messages st
          @ [\<lparr>role = Assistant, content = replyContent out, timestamp = t\<rparr>],
        isLoading := False\<rparr>"

text \<open>
  A whole call of handleSend whose post settles with \<open>out\<close>; \<open>t1\<close> and \<open>t2\<close> are the
  clock readings of the two \<open>new Date()\<close>.
\<close>

definition handleSend :: "chat_state \<Rightarrow> nat \<Rightarrow> outcome \<Rightarrow> nat \<Rightarrow> chat_state" where
  "handleSend st t1 out t2 = (if blocked st then st else settle (dispatch st t1) out t2)"

section \<open>The page as a machine of events\<close>

text \<open>
  The component reacts to three events: the input's \<open>onChange\<close> (\<open>setInput\<close>), a click
  on the button or Enter in the input (a call of handleSend), and the settling of an
  awaited post (the continuation of that call). This first machine is the page that has
  rendered before each event, so that the handler of the event holds the state the
  event before it left; React renders between two inputs of a user. The machine that
  keeps the render apart follows below.
  \<open>posted\<close> logs the bodies posted, \<open>settled\<close> the outcomes of the posts that have
  settled, oldest first; \<open>inflight\<close> counts the posts still awaited.
\<close>

record client =
  ui :: chat_state
  posted :: "chat_request list"
  settled :: "outcome list"
  inflight :: nat

datatype event = Change jsstring | Send nat | Settled outcome nat

fun step :: "client \<Rightarrow> event \<Rightarrow> client" where
  "step c (Change s) = c\<lparr>ui := (ui c)\<lparr>input := s\<rparr>\<rparr>"
| "step c (Send t) =
     (if blocked (ui c) then c
      else c\<lparr>ui := dispatch (ui c) t, posted := posted c @ [request_of (ui c)],
             inflight := Suc (inflight c)\<rparr>)"
| "step c (Settled out t) =
     (if inflight c = 0 then c
      else c\<lparr>ui := settle (ui c) out t, settled := settled c @ [out],
             inflight := inflight c - 1\<rparr>)"

definition run :: "client \<Rightarrow> event list \<Rightarrow> client" where
  "run c evs = foldl step c evs"

text \<open>The page as first rendered at clock \<open>t0\<close>.\<close>

definition start :: "nat \<Rightarrow> client" where
  "start t0 = \<lparr>ui = Home t0, posted = [], settled = [], inflight = 0\<rparr>"



subsection \<open>Handlers read the last render\<close>

text \<open>
  handleSend is a closure of the render that made it: its \<open>input\<close>, \<open>isLoading\<close> and
  \<open>messages\<close> are the constants of that render, while \<open>setMessages\<close> appends to the
  list the state holds when the update is applied. The page below keeps the state of
  the last render beside the state, and rendering is a task of its own: a call of
  handleSend tests the guard and builds the user message and the body from the
  render, and two calls from one render read the same constants.
\<close>

record page = client +
  rendered :: chat_state

datatype task = Render | Handle event

fun page_step :: "page \<Rightarrow> task \<Rightarrow> page" where
  "page_step p Render = p\<lparr>rendered := ui p\<rparr>"
| "page_step p (Handle (Change s)) = p\<lparr>ui := (ui p)\<lparr>input := s\<rparr>\<rparr>"
| "page_step p (Handle (Send t)) =
     (if blocked (rendered p) then p
      else p\<lparr>ui := (ui p)\<lparr>messages := messages (ui p) @ [userMessage (rendered p) t],
                          input := [], isLoading := True\<rparr>,
             posted := posted p @ [request_of (rendered p)],
             inflight := Suc (inflight p)\<rparr>)"
| "page_step p (Handle (Settled out t)) =
     (if inflight p = 0 then p
      else p\<lparr>ui := settle (ui p) out t, settled := settled p @ [out],
             inflight := inflight p - 1\<rparr>)"

definition page_run :: "page \<Rightarrow> task list \<Rightarrow> page" where
  "page_run p ts = foldl page_step p ts"

definition page_start :: "nat \<Rightarrow> page" where
  "page_start t0 =
     \<lparr>ui = Home t0, posted = [], settled = [], inflight = 0, rendered = Home t0\<rparr>"

text \<open>The tasks of a run in which the page renders before every event.\<close>

definition rendered_tasks :: "event list \<Rightarrow> task list" where
  "rendered_tasks evs = concat (map (\<lambda>ev. [Render, Handle ev]) evs)"

text \<open>
  Runs in which the page renders between any two calls of handleSend: the flag says
  whether the page has rendered since the last call (it has when it starts).
\<close>

fun sends_apart :: "bool \<Rightarrow> task list \<Rightarrow> bool" where
  "sends_apart r [] = True"
| "sends_apart r (Render # ts) = sends_apart True ts"
| "sends_apart r (Handle (Send t) # ts) = (r \<and> sends_apart False ts)"
| "sends_apart r (Handle (Change s) # ts) = sends_apart r ts"
| "sends_apart r (Handle (Settled out t) # ts) = sends_apart r ts"

section \<open>The conversation turn controller\<close>

text \<open>
  The controller, the gateway and the tool registry run on the server; the sources of
  the page do not contain them. The definitions of this section follow sections 3, 4.1
  and 6 of the specification.
\<close>

text \<open>Modelled from the spec: a ToolCallRequest, \<open>{tool name, arguments}\<close>.\<close>

record tool_call =
  call_name :: string
  call_arguments :: string

text \<open>
  Modelled from the spec: a ToolResult, \<open>{tool name, success flag, payload or error
  description}\<close>.
\<close>

record tool_result =
  result_name :: string
  result_success :: bool
  result_payload :: string

text \<open>
  Modelled from the spec: a Message of the transcript, with role user, assistant or
  tool; an assistant message is a text or carries the tool-call requests of a gateway
  response, a tool message carries one ToolResult.
\<close>

datatype transcript_message =
    UserText string
  | AssistantText string
  | AssistantCalls "tool_call list"
  | ToolMessage tool_result

text \<open>Modelled from the spec: the typed conditions a failed gateway call yields.\<close>

datatype provider_condition =
  ProviderUnavailable | ProviderAuthError | ProviderTimeout | ProviderBadResponse

text \<open>
  Modelled from the spec: what a call of the LLM Gateway gives, a text, one or more
  tool-call requests in order (the first and the rest), or a failure of the provider.
\<close>

datatype gateway_response =
    Text string
  | ToolCalls tool_call "tool_call list"
  | GatewayFailed provider_condition

text \<open>Modelled from the spec: how a turn ends.\<close>

datatype turn_end = Reply string | ConversationStalled | Failed provider_condition

text \<open>
  Modelled from the spec: the result of \<open>handleTurn\<close>, with the transcript the turn
  leaves and the transcripts it passed to the gateway, first call first.
\<close>

record turn_result =
  ending :: turn_end
  transcript :: "transcript_message list"
  gateway_inputs :: "transcript_message list list"

text \<open>
  Modelled from the spec: the messages one tool-call iteration appends, the assistant
  message with the requests and one ToolResult message per request, in request order.
  Section 3 has the requests folded into a Message, section 4.1 appends one ToolResult
  message per call, and in the scenario of section 8 a turn with one tool call adds
  four messages: the user's, the assistant's with the request, the tool's and the final
  text.
\<close>

definition iteration_messages ::
  "(tool_call \<Rightarrow> tool_result) \<Rightarrow> tool_call list \<Rightarrow> transcript_message list" where
  "iteration_messages registry calls =
     AssistantCalls calls # map (\<lambda>c. ToolMessage (registry c)) calls"

text \<open>
  Modelled from the spec: the bounded loop of section 4.1, with the iterations left as
  first argument. Each iteration calls the gateway with the full transcript; a text is
  appended and returned; tool calls are run through the registry and their messages
  appended before the next iteration; a failed gateway call ends the turn with its
  condition; no iteration left ends it stalled.
\<close>

fun controller_loop ::
  "nat \<Rightarrow> (transcript_message list \<Rightarrow> gateway_response) \<Rightarrow> (tool_call \<Rightarrow> tool_result)
     \<Rightarrow> transcript_message list \<Rightarrow> transcript_message list list \<Rightarrow> turn_result" where
  "controller_loop 0 gateway registry tr seen =
     \<lparr>ending = ConversationStalled, transcript = tr, gateway_inputs = seen\<rparr>"
| "controller_loop (Suc n) gateway registry tr seen =
     (case gateway tr of
        Text s \<Rightarrow>
          \<lparr>ending = Reply s, transcript = tr @ [AssistantText s],
           gateway_inputs = seen @ [tr]\<rparr>
      | ToolCalls c cs \<Rightarrow>
          controller_loop n gateway registry
            (tr @ iteration_messages registry (c # cs)) (seen @ [tr])
      | GatewayFailed e \<Rightarrow>
          \<lparr>ending = Failed e, transcript = tr, gateway_inputs = seen @ [tr]\<rparr>)"

text \<open>
  Modelled from the spec: \<open>handleTurn(session, userText)\<close> with the iteration cap, the
  gateway and the registry it is configured with: the user message is appended, then
  the loop runs.
\<close>

definition handleTurn ::
  "nat \<Rightarrow> (transcript_message list \<Rightarrow> gateway_response) \<Rightarrow> (tool_call \<Rightarrow> tool_result)
     \<Rightarrow> transcript_message list \<Rightarrow> string \<Rightarrow> turn_result" where
  "handleTurn cap gateway registry session userText =
     controller_loop cap gateway registry (session @ [UserText userText]) []"

text \<open>Whether the gateway answers a transcript with tool calls, and with how many.\<close>

definition requests_tools ::
  "(transcript_message list \<Rightarrow> gateway_response) \<Rightarrow> transcript_message list \<Rightarrow> bool" where
  "requests_tools gateway tr = (case gateway tr of ToolCalls c cs \<Rightarrow> True | _ \<Rightarrow> False)"

definition calls_requested ::
  "(transcript_message list \<Rightarrow> gateway_response) \<Rightarrow> transcript_message list \<Rightarrow> nat" where
  "calls_requested gateway tr =
     (case gateway tr of ToolCalls c cs \<Rightarrow> Suc (length cs) | _ \<Rightarrow> 0)"

text \<open>
  The tool-call iterations of a turn, each given by the transcript its gateway call was
  made with, and the number of messages the tool-call iterations among some gateway
  calls append: for each, the assistant message and one message per call.
\<close>

definition tool_iterations ::
  "(transcript_message list \<Rightarrow> gateway_response) \<Rightarrow> turn_result
     \<Rightarrow> transcript_message list list" where
  "tool_iterations gateway res = filter (requests_tools gateway) (gateway_inputs res)"

definition messages_added ::
  "(transcript_message list \<Rightarrow> gateway_response) \<Rightarrow> transcript_message list list \<Rightarrow> nat" where
  "messages_added gateway ts =
     sum_list (map (\<lambda>tr. Suc (calls_requested gateway tr)) (filter (requests_tools gateway) ts))"

text \<open>
  Modelled from the spec: the messages produced during the iteration whose gateway call
  is made with a transcript, after steps 2 and 3 of section 4.1: the final text, the
  messages of a tool-call iteration, or nothing when the call fails.
\<close>

definition produced ::
  "(transcript_message list \<Rightarrow> gateway_response) \<Rightarrow> (tool_call \<Rightarrow> tool_result)
     \<Rightarrow> transcript_message list \<Rightarrow> transcript_message list" where
  "produced gateway registry tr =
     (case gateway tr of
        Text s \<Rightarrow> [AssistantText s]
      | ToolCalls c cs \<Rightarrow> iteration_messages registry (c # cs)
      | GatewayFailed e \<Rightarrow> [])"

section \<open>Basic facts\<close>

lemma of_char_word16_inj: "(of_char c :: 16 word) = of_char d \<longleftrightarrow> c = d"
proof
  assume h: "(of_char c :: 16 word) = of_char d"
  have "(of_nat (of_char c) :: 16 word) = of_nat (of_char d)"
    using h by (simp only: of_nat_of_char)
  moreover have "(of_char c :: nat) < 2 ^ 16" "(of_char d :: nat) < 2 ^ 16"
    by (rule less_trans [OF nat_of_char_less_256], simp)+
  ultimately have "(of_char c :: nat) = of_char d"
    by (simp add: word_of_nat_eq_iff take_bit_nat_eq_self)
  then show "c = d" by simp
qed simp

lemma lit_eq_iff: "lit a = lit b \<longleftrightarrow> a = b"
  unfolding lit_def
  by (rule inj_map_eq_map) (simp add: inj_on_def of_char_word16_inj)

lemma lit_eq_Nil_iff: "lit s = [] \<longleftrightarrow> s = []"
  by (simp add: lit_def)

lemma or_else_Some: "or_else (Some s) b = (if s = [] then b else s)"
  by (simp add: or_else_def)

lemma or_else_nonempty: "b \<noteq> [] \<Longrightarrow> or_else a b \<noteq> []"
  by (simp add: or_else_def split: option.splits)


lemma msgs_nonempty:
  "msg_402 \<noteq> []" "msg_401 \<noteq> []" "msg_500 \<noteq> []" "msg_400 \<noteq> []" "msg_status s \<noteq> []"
  "msg_timeout \<noteq> []" "msg_connect \<noteq> []" "msg_unexpected \<noteq> []" "msg_invalid \<noteq> []"
  by (simp_all add: msg_402_def msg_401_def msg_500_def msg_400_def msg_status_def
      msg_timeout_def msg_connect_def msg_unexpected_def msg_invalid_def lit_eq_Nil_iff)

lemma errorContent_nonempty: "errorContent e \<noteq> []"
  by (simp add: errorContent_def or_else_Some or_else_nonempty msgs_nonempty split: option.splits)

lemma replyContent_nonempty: "replyContent out \<noteq> []"
  by (simp add: replyContent_def try_block_def errorContent_nonempty
      split: outcome.splits option.splits tried.splits)

lemma trim_example: "trim (lit ''  What are your hours? '') = lit ''What are your hours?''"
  by (simp add: trim_def is_space_def lit_def)

subsection \<open>The message list only grows\<close>

lemma messages_step_prefix: "prefix (messages (ui c)) (messages (ui (step c ev)))"
  by (cases ev) (simp_all add: dispatch_def settle_def)

lemma messages_run_prefix: "prefix (messages (ui c)) (messages (ui (run c evs)))"
proof (induction evs arbitrary: c)
  case Nil
  then show ?case by (simp add: run_def)
next
  case (Cons ev evs)
  have "prefix (messages (ui c)) (messages (ui (step c ev)))"
    by (rule messages_step_prefix)
  also have "prefix \<dots> (messages (ui (run (step c ev) evs)))"
    by (rule Cons.IH)
  finally show ?case by (simp add: run_def)
qed

lemma messages_start_prefix:
  "prefix [\<lparr>role = Assistant, content = greeting, timestamp = t0\<rparr>]
          (messages (ui (run (start t0) evs)))"
  using messages_run_prefix [of "start t0" evs] by (simp add: start_def Home_def)

lemma history_mono:
  "prefix ms ms' \<Longrightarrow> set (conversationHistory ms) \<subseteq> set (conversationHistory ms')"
  by (auto simp: conversationHistory_def prefix_def)

subsection \<open>One call of handleSend\<close>

lemma handleSend_messages:
  "\<not> blocked st \<Longrightarrow>
     messages (handleSend st t1 out t2) =
       messages st @ [\<lparr>role = User, content = trim (input st), timestamp = t1\<rparr>,
                      \<lparr>role = Assistant, content = replyContent out, timestamp = t2\<rparr>]"
  by (simp add: handleSend_def settle_def dispatch_def userMessage_def)

lemma handleSend_isLoading: "\<not> blocked st \<Longrightarrow> \<not> isLoading (handleSend st t1 out t2)"
  by (simp add: handleSend_def settle_def dispatch_def)

lemma replyContent_cases:
  "(out = Resolved r \<and> data r = Some d \<and> response d = Some s \<and> s \<noteq> []
      \<longrightarrow> replyContent out = s)
   \<and> (out = Rejected e \<longrightarrow> replyContent out = errorContent e)
   \<and> (out = Resolved r \<and> (data r = None \<or> (\<exists>d. data r = Some d \<and> \<not> truthy (response d)))
      \<longrightarrow> replyContent out = errorContent invalid_response_error)"
  by (auto simp: replyContent_def try_block_def split: option.splits)

section \<open>The reply shown for a failed turn\<close>

text \<open>
  Claim C1, as the page implements it. The reply shown for a failed turn is a fixed
  text that depends on the category of the failure alone when the server answers 402
  or 401 and when the request got no response (one text for a timeout, one for a failed
  connection). For an answer with status 500, 400 or any other status the reply is the
  \<open>detail\<close> (else \<open>message\<close>) string of the server's error payload whenever that string
  is not empty, and the fixed text of the status only when it is empty. An error that
  has neither a response nor a request shows its own message when it has one.
\<close>

theorem errorContent_by_category:
  "(err_response e = Some r \<longrightarrow>
      (status r = 402 \<longrightarrow> errorContent e = msg_402) \<and>
      (status r = 401 \<longrightarrow> errorContent e = msg_401) \<and>
      (status r \<noteq> 402 \<longrightarrow> status r \<noteq> 401 \<longrightarrow> detail_of r \<noteq> [] \<longrightarrow>
         errorContent e = detail_of r) \<and>
      (status r = 500 \<longrightarrow> detail_of r = [] \<longrightarrow> errorContent e = msg_500) \<and>
      (status r = 400 \<longrightarrow> detail_of r = [] \<longrightarrow> errorContent e = msg_400) \<and>
      (status r \<notin> {402, 401, 500, 400} \<longrightarrow> detail_of r = [] \<longrightarrow>
         errorContent e = msg_status (status r))) \<and>
   (err_response e = None \<longrightarrow> err_request e \<longrightarrow>
      (timed_out e \<longrightarrow> errorContent e = msg_timeout) \<and>
      (\<not> timed_out e \<longrightarrow> errorContent e = msg_connect)) \<and>
   (err_response e = None \<longrightarrow> \<not> err_request e \<longrightarrow>
      errorContent e = or_else (err_message e) msg_unexpected)"
  by (simp add: errorContent_def or_else_Some)

theorem errorContent_by_category_witness:
  "errorContent \<lparr>err_response = Some \<lparr>status = 402, data = Some \<lparr>response = None,
        detail = Some (lit ''Insufficient Balance''), data_message = None\<rparr>\<rparr>,
      err_request = True, err_code = Some (lit ''ERR_BAD_REQUEST''),
      err_message = Some (lit ''Request failed with status code 402'')\<rparr> = msg_402
   \<and> errorContent \<lparr>err_response = Some \<lparr>status = 500, data = None\<rparr>,
      err_request = True, err_code = Some (lit ''ERR_BAD_RESPONSE''),
      err_message = Some (lit ''Request failed with status code 500'')\<rparr> = msg_500
   \<and> errorContent \<lparr>err_response = Some \<lparr>status = 400, data = Some \<lparr>response = None,
        detail = Some (lit ''Message cannot be empty''), data_message = None\<rparr>\<rparr>,
      err_request = True, err_code = Some (lit ''ERR_BAD_REQUEST''),
      err_message = Some (lit ''Request failed with status code 400'')\<rparr>
     = lit ''Message cannot be empty''
   \<and> errorContent \<lparr>err_response = None, err_request = True,
      err_code = Some (lit ''ECONNABORTED''),
      err_message = Some (lit ''timeout of 60000ms exceeded'')\<rparr> = msg_timeout"
proof -
  let ?r402 = "\<lparr>status = 402, data = Some \<lparr>response = None,
        detail = Some (lit ''Insufficient Balance''), data_message = None\<rparr>\<rparr>"
  let ?e402 = "\<lparr>err_response = Some ?r402,
      err_request = True, err_code = Some (lit ''ERR_BAD_REQUEST''),
      err_message = Some (lit ''Request failed with status code 402'')\<rparr>"
  let ?r500 = "\<lparr>status = 500, data = None\<rparr>"
  let ?e500 = "\<lparr>err_response = Some ?r500,
      err_request = True, err_code = Some (lit ''ERR_BAD_RESPONSE''),
      err_message = Some (lit ''Request failed with status code 500'')\<rparr>"
  let ?r400 = "\<lparr>status = 400, data = Some \<lparr>response = None,
        detail = Some (lit ''Message cannot be empty''), data_message = None\<rparr>\<rparr>"
  let ?e400 = "\<lparr>err_response = Some ?r400,
      err_request = True, err_code = Some (lit ''ERR_BAD_REQUEST''),
      err_message = Some (lit ''Request failed with status code 400'')\<rparr>"
  let ?eT = "\<lparr>err_response = None, err_request = True,
      err_code = Some (lit ''ECONNABORTED''),
      err_message = Some (lit ''timeout of 60000ms exceeded'')\<rparr>"
  have d400: "detail_of ?r400 = lit ''Message cannot be empty''"
    by (simp add: detail_of_def or_else_Some lit_eq_Nil_iff)
  have d500: "detail_of ?r500 = []"
    by (simp add: detail_of_def)
  have tT: "timed_out ?eT"
    by (simp add: timed_out_def)
  show ?thesis
    using errorContent_by_category [of ?e402 ?r402]
      errorContent_by_category [of ?e500 ?r500]
      errorContent_by_category [of ?e400 ?r400]
      errorContent_by_category [of ?eT ?r500]
    by (simp add: d400 d500 tT lit_eq_Nil_iff)
qed

text \<open>
  The claim as the specification words it fails for a server fault: two answers of
  status 500 are shown with two different texts, each the server's own detail string.
\<close>

theorem errorContent_shows_server_detail_counterexample:
  "errorContent \<lparr>err_response = Some \<lparr>status = 500, data = Some \<lparr>response = None,
        detail = Some (lit ''KeyError: 'patient_id' (conversation_graph.py, line 88)''),
        data_message = None\<rparr>\<rparr>,
      err_request = True, err_code = Some (lit ''ERR_BAD_RESPONSE''),
      err_message = Some (lit ''Request failed with status code 500'')\<rparr>
     = lit ''KeyError: 'patient_id' (conversation_graph.py, line 88)''
   \<and> errorContent \<lparr>err_response = Some \<lparr>status = 500, data = Some \<lparr>response = None,
        detail = Some (lit ''Error code: 429 - rate limit reached''),
        data_message = None\<rparr>\<rparr>,
      err_request = True, err_code = Some (lit ''ERR_BAD_RESPONSE''),
      err_message = Some (lit ''Request failed with status code 500'')\<rparr>
     = lit ''Error code: 429 - rate limit reached''
   \<and> lit ''KeyError: 'patient_id' (conversation_graph.py, line 88)''
       \<noteq> lit ''Error code: 429 - rate limit reached''"
  by (simp add: errorContent_def detail_of_def or_else_Some lit_eq_Nil_iff lit_eq_iff)

section \<open>What one turn adds to the message list\<close>

text \<open>
  Claim C9. A call of handleSend that passes the guard (input not blank, no turn
  loading) appends exactly two messages: the user message with the trimmed input, then
  one assistant message. Its content is the \<open>response\<close> text when the post resolves with
  a non-empty one, and the text of the catch block otherwise, which is never empty: for a
  rejection the text computed from the error, for a resolved answer without a usable
  \<open>response\<close> the message of the error thrown for it. The loading flag is false
  afterwards in every case. The reply, also a failure's, has role assistant and stays in
  the list, so the history of every later request contains it.
\<close>

theorem handleSend_appends_user_then_assistant:
  assumes "\<not> blocked st"
  shows "messages (handleSend st t1 out t2) =
           messages st @ [\<lparr>role = User, content = trim (input st), timestamp = t1\<rparr>,
                          \<lparr>role = Assistant, content = replyContent out, timestamp = t2\<rparr>]
       \<and> (out = Resolved r \<and> data r = Some d \<and> response d = Some s \<and> s \<noteq> []
            \<longrightarrow> replyContent out = s)
       \<and> (out = Rejected e \<longrightarrow> replyContent out = errorContent e)
       \<and> (out = Resolved r \<and> (data r = None \<or> (\<exists>d. data r = Some d \<and> \<not> truthy (response d)))
            \<longrightarrow> replyContent out = errorContent invalid_response_error)
       \<and> replyContent out \<noteq> []
       \<and> \<not> isLoading (handleSend st t1 out t2)
       \<and> \<lparr>entry_role = Assistant, entry_content = replyContent out\<rparr>
            \<in> set (conversation_history (request_of
                 (ui (run \<lparr>ui = handleSend st t1 out t2, posted = ps, settled = os,
                           inflight = 0\<rparr> evs))))"
proof -
  let ?st' = "handleSend st t1 out t2"
  let ?c = "\<lparr>ui = ?st', posted = ps, settled = os, inflight = 0\<rparr>"
  have m: "messages ?st' =
      messages st @ [\<lparr>role = User, content = trim (input st), timestamp = t1\<rparr>,
                     \<lparr>role = Assistant, content = replyContent out, timestamp = t2\<rparr>]"
    using assms by (rule handleSend_messages)
  have l: "\<not> isLoading ?st'"
    using assms by (rule handleSend_isLoading)
  have "\<lparr>entry_role = Assistant, entry_content = replyContent out\<rparr>
          \<in> set (conversationHistory (messages ?st'))"
    by (simp add: m conversationHistory_def)
  moreover have "prefix (messages (ui ?c)) (messages (ui (run ?c evs)))"
    by (rule messages_run_prefix)
  ultimately have h: "\<lparr>entry_role = Assistant, entry_content = replyContent out\<rparr>
          \<in> set (conversation_history (request_of (ui (run ?c evs))))"
    using history_mono [of "messages ?st'" "messages (ui (run ?c evs))"]
    by (auto simp: request_of_def)
  from m l h replyContent_cases [of out r d s e] replyContent_nonempty [of out]
  show ?thesis by blast
qed

theorem handleSend_appends_user_then_assistant_witness:
  "\<not> blocked ((Home 0)\<lparr>input := lit ''  What are your hours? ''\<rparr>)
   \<and> messages (handleSend ((Home 0)\<lparr>input := lit ''  What are your hours? ''\<rparr>) 1
         (Rejected \<lparr>err_response = None, err_request = True, err_code = None,
                    err_message = Some (lit ''Network Error'')\<rparr>) 2)
       = [\<lparr>role = Assistant, content = greeting, timestamp = 0\<rparr>,
          \<lparr>role = User, content = lit ''What are your hours?'', timestamp = 1\<rparr>,
          \<lparr>role = Assistant, content = msg_connect, timestamp = 2\<rparr>]
   \<and> \<not> isLoading (handleSend ((Home 0)\<lparr>input := lit ''  What are your hours? ''\<rparr>) 1
         (Rejected \<lparr>err_response = None, err_request = True, err_code = None,
                    err_message = Some (lit ''Network Error'')\<rparr>) 2)"
proof -
  let ?st = "(Home 0)\<lparr>input := lit ''  What are your hours? ''\<rparr>"
  let ?e = "\<lparr>err_response = None, err_request = True, err_code = None,
                    err_message = Some (lit ''Network Error'')\<rparr>"
  have h: "\<not> blocked ?st"
    by (simp add: blocked_def Home_def trim_example lit_eq_Nil_iff)
  have t: "\<not> timed_out ?e"
    by (simp add: timed_out_def lit_def)
  have r: "replyContent (Rejected ?e) = msg_connect"
    by (simp add: replyContent_def try_block_def errorContent_def t)
  show ?thesis
    using h handleSend_appends_user_then_assistant [OF h, of 1 "Rejected ?e" 2]
    by (simp add: r trim_example Home_def)
qed

section \<open>The body of a request\<close>

text \<open>
  Claim C10. When a send is dispatched in a state the page can reach, the body posted
  carries the trimmed input in \<open>message\<close> and, in \<open>conversation_history\<close>, the message
  list as it was before the user message is appended: the list after the dispatch is
  that list with the user message added at the end. The history starts with the
  greeting the page is created with. Its entries carry the role and the content of the
  messages, in order, and nothing of their timestamps.
\<close>

theorem posted_history_is_snapshot_before_append:
  assumes "c = run (start t0) evs" and "\<not> blocked (ui c)"
  shows "posted (step c (Send t)) =
           posted c @ [\<lparr>message = trim (input (ui c)),
                        conversation_history = conversationHistory (messages (ui c))\<rparr>]
       \<and> messages (ui (step c (Send t))) =
           messages (ui c) @ [\<lparr>role = User, content = trim (input (ui c)), timestamp = t\<rparr>]
       \<and> take 1 (conversationHistory (messages (ui c)))
           = [\<lparr>entry_role = Assistant, entry_content = greeting\<rparr>]
       \<and> map entry_role (conversationHistory (messages (ui c))) = map role (messages (ui c))
       \<and> map entry_content (conversationHistory (messages (ui c)))
           = map content (messages (ui c))
       \<and> conversationHistory (map (timestamp_update f) (messages (ui c)))
           = conversationHistory (messages (ui c))"
proof -
  have "prefix [\<lparr>role = Assistant, content = greeting, timestamp = t0\<rparr>] (messages (ui c))"
    unfolding assms(1) by (rule messages_start_prefix)
  then have g: "take 1 (conversationHistory (messages (ui c)))
           = [\<lparr>entry_role = Assistant, entry_content = greeting\<rparr>]"
    by (auto simp: prefix_def conversationHistory_def)
  show ?thesis
    using assms(2) g
    by (simp add: request_of_def dispatch_def userMessage_def conversationHistory_def comp_def)
qed

theorem posted_history_is_snapshot_before_append_witness:
  "\<not> blocked (ui (run (start 0) [Change (lit '' hello '')]))
   \<and> posted (step (run (start 0) [Change (lit '' hello '')]) (Send 7))
      = [\<lparr>message = lit ''hello'',
          conversation_history = [\<lparr>entry_role = Assistant, entry_content = greeting\<rparr>]\<rparr>]
   \<and> messages (ui (step (run (start 0) [Change (lit '' hello '')]) (Send 7)))
      = [\<lparr>role = Assistant, content = greeting, timestamp = 0\<rparr>,
         \<lparr>role = User, content = lit ''hello'', timestamp = 7\<rparr>]"
proof -
  let ?c = "run (start 0) [Change (lit '' hello '')]"
  have tr: "trim (lit '' hello '') = lit ''hello''"
    by (simp add: trim_def is_space_def lit_def)
  have u: "ui ?c = \<lparr>messages = [\<lparr>role = Assistant, content = greeting, timestamp = 0\<rparr>],
                     input = lit '' hello '', isLoading = False\<rparr>"
    by (simp add: run_def start_def Home_def)
  have p: "posted ?c = []"
    by (simp add: run_def start_def)
  have h: "\<not> blocked (ui ?c)"
    by (simp add: u blocked_def tr lit_eq_Nil_iff)
  show ?thesis
    using h posted_history_is_snapshot_before_append [OF refl h, of 7 id]
    by (simp add: u p tr conversationHistory_def)
qed


section \<open>Turns of one page and the render\<close>

text \<open>
  The machine of events is the page that renders before every event.
\<close>

lemma page_step_rendered:
  "client.truncate (page_step (page_step p Render) (Handle ev)) = step (client.truncate p) ev"
  by (cases ev) (simp_all add: client.truncate_def dispatch_def)

lemma page_run_rendered:
  "client.truncate (page_run p (rendered_tasks evs)) = run (client.truncate p) evs"
proof (induction evs arbitrary: p)
  case Nil
  show ?case by (simp add: page_run_def rendered_tasks_def run_def)
next
  case (Cons ev evs)
  let ?q = "page_step (page_step p Render) (Handle ev)"
  have "page_run p (rendered_tasks (ev # evs)) = page_run ?q (rendered_tasks evs)"
    by (simp add: page_run_def rendered_tasks_def)
  also have "client.truncate \<dots> = run (client.truncate ?q) evs"
    by (rule Cons.IH)
  also have "\<dots> = run (step (client.truncate p) ev) evs"
    by (simp only: page_step_rendered)
  also have "\<dots> = run (client.truncate p) (ev # evs)"
    by (simp add: run_def)
  finally show ?case .
qed

lemma page_start_truncate: "client.truncate (page_start t0) = start t0"
  by (simp add: client.truncate_def page_start_def start_def)




lemma rendered_tasks_apart: "sends_apart r (rendered_tasks evs)"
proof (induction evs arbitrary: r)
  case Nil
  show ?case by (simp add: rendered_tasks_def)
next
  case (Cons ev evs)
  then show ?case by (cases ev) (simp_all add: rendered_tasks_def)
qed






section \<open>Facts about the controller loop\<close>

lemma loop_inputs_bound:
  "length (gateway_inputs (controller_loop n gw reg tr seen)) \<le> length seen + n"
proof (induction n arbitrary: tr seen)
  case 0
  show ?case by simp
next
  case (Suc n)
  show ?case
  proof (cases "gw tr")
    case (Text s)
    then show ?thesis by simp
  next
    case (ToolCalls c cs)
    then show ?thesis
      using Suc.IH [of "tr @ iteration_messages reg (c # cs)" "seen @ [tr]"] by simp
  next
    case (GatewayFailed e)
    then show ?thesis by simp
  qed
qed

lemma messages_added_snoc:
  "messages_added gw (ts @ [tr])
     = messages_added gw ts + (case gw tr of ToolCalls c cs \<Rightarrow> 2 + length cs | _ \<Rightarrow> 0)"
  by (simp add: messages_added_def calls_requested_def requests_tools_def
      split: gateway_response.splits)

lemma loop_length:
  "length (transcript (controller_loop n gw reg tr seen)) + messages_added gw seen
     = length tr + messages_added gw (gateway_inputs (controller_loop n gw reg tr seen))
       + (case ending (controller_loop n gw reg tr seen) of Reply s \<Rightarrow> 1 | _ \<Rightarrow> 0)"
proof (induction n arbitrary: tr seen)
  case 0
  show ?case by simp
next
  case (Suc n)
  show ?case
  proof (cases "gw tr")
    case (Text s)
    then show ?thesis by (simp add: messages_added_snoc)
  next
    case (ToolCalls c cs)
    then show ?thesis
      using Suc.IH [of "tr @ iteration_messages reg (c # cs)" "seen @ [tr]"]
      by (simp add: messages_added_snoc iteration_messages_def)
  next
    case (GatewayFailed e)
    then show ?thesis by (simp add: messages_added_snoc)
  qed
qed

lemma loop_stalled_iff:
  "ending (controller_loop n gw reg tr seen) = ConversationStalled \<longleftrightarrow>
     length (filter (requests_tools gw) (gateway_inputs (controller_loop n gw reg tr seen)))
       = length (filter (requests_tools gw) seen) + n"
proof (induction n arbitrary: tr seen)
  case 0
  show ?case by simp
next
  case (Suc n)
  show ?case
  proof (cases "gw tr")
    case (Text s)
    then show ?thesis by (simp add: requests_tools_def)
  next
    case (ToolCalls c cs)
    then show ?thesis
      using Suc.IH [of "tr @ iteration_messages reg (c # cs)" "seen @ [tr]"]
      by (simp add: requests_tools_def)
  next
    case (GatewayFailed e)
    then show ?thesis by (simp add: requests_tools_def)
  qed
qed

lemma loop_always_calls:
  "(\<And>t. requests_tools gw t) \<Longrightarrow>
     ending (controller_loop n gw reg tr seen) = ConversationStalled
     \<and> length (gateway_inputs (controller_loop n gw reg tr seen)) = length seen + n"
proof (induction n arbitrary: tr seen)
  case 0
  show ?case by simp
next
  case (Suc n)
  from Suc.prems [of tr] obtain c cs where "gw tr = ToolCalls c cs"
    by (auto simp: requests_tools_def split: gateway_response.splits)
  then show ?case
    using Suc.IH [of "tr @ iteration_messages reg (c # cs)" "seen @ [tr]"] Suc.prems by simp
qed

lemma sum_single_calls:
  "(\<And>t. t \<in> set ts \<Longrightarrow> calls_requested gw t = 1) \<Longrightarrow>
     sum_list (map (\<lambda>tr. Suc (calls_requested gw tr)) ts) = 2 * length ts"
  by (induction ts) simp_all

text \<open>
  Claim C2, as the loop of section 4.1 has it. A turn that ends with a text after \<open>k\<close>
  tool-call iterations, \<open>k\<close> at most the cap, leaves the session's transcript with the
  user message, the messages of the tool-call iterations and the final text: each
  tool-call iteration adds the assistant message with the requests and one ToolResult
  message per request. The length is the initial length + 1 + 2 \<times> \<open>k\<close> + 1 when every
  tool-call iteration requests exactly one tool call.
\<close>

theorem transcript_length_of_completed_turn:
  assumes "ending (handleTurn cap gw reg session u) = Reply s"
    and "length (tool_iterations gw (handleTurn cap gw reg session u)) \<le> cap"
  shows "length (transcript (handleTurn cap gw reg session u))
           = length session + 1
             + messages_added gw (gateway_inputs (handleTurn cap gw reg session u)) + 1
       \<and> ((\<forall>tr \<in> set (tool_iterations gw (handleTurn cap gw reg session u)).
              calls_requested gw tr = 1) \<longrightarrow>
            length (transcript (handleTurn cap gw reg session u))
              = length session + 1
                + 2 * length (tool_iterations gw (handleTurn cap gw reg session u)) + 1)"
proof -
  let ?res = "handleTurn cap gw reg session u"
  have len: "length (transcript ?res)
      = length session + 1 + messages_added gw (gateway_inputs ?res) + 1"
    using loop_length [of cap gw reg "session @ [UserText u]" "[]"] assms(1)
    by (simp add: handleTurn_def messages_added_def)
  have one: "messages_added gw (gateway_inputs ?res) = 2 * length (tool_iterations gw ?res)"
    if "\<forall>tr \<in> set (tool_iterations gw ?res). calls_requested gw tr = 1"
    using that sum_single_calls [of "tool_iterations gw ?res" gw]
    by (simp add: messages_added_def tool_iterations_def)
  from len one show ?thesis by simp
qed


theorem transcript_length_of_completed_turn_witness:
  "ending (handleTurn 5
     (\<lambda>tr. if length tr < 2
            then ToolCalls \<lparr>call_name = ''reschedule_appointment'',
                           call_arguments = ''Tuesday 10:00''\<rparr> []
            else Text ''Your appointment is moved to Tuesday at 10.'')
     (\<lambda>c. \<lparr>result_name = call_name c, result_success = True, result_payload = ''rescheduled''\<rparr>)
     [] ''Please move my appointment to Tuesday'')
     = Reply ''Your appointment is moved to Tuesday at 10.''
   \<and> length (tool_iterations
     (\<lambda>tr. if length tr < 2
            then ToolCalls \<lparr>call_name = ''reschedule_appointment'',
                           call_arguments = ''Tuesday 10:00''\<rparr> []
            else Text ''Your appointment is moved to Tuesday at 10.'')
     (handleTurn 5
     (\<lambda>tr. if length tr < 2
            then ToolCalls \<lparr>call_name = ''reschedule_appointment'',
                           call_arguments = ''Tuesday 10:00''\<rparr> []
            else Text ''Your appointment is moved to Tuesday at 10.'')
     (\<lambda>c. \<lparr>result_name = call_name c, result_success = True, result_payload = ''rescheduled''\<rparr>)
     [] ''Please move my appointment to Tuesday'')) \<le> 5
   \<and> length (transcript (handleTurn 5
     (\<lambda>tr. if length tr < 2
            then ToolCalls \<lparr>call_name = ''reschedule_appointment'',
                           call_arguments = ''Tuesday 10:00''\<rparr> []
            else Text ''Your appointment is moved to Tuesday at 10.'')
     (\<lambda>c. \<lparr>result_name = call_name c, result_success = True, result_payload = ''rescheduled''\<rparr>)
     [] ''Please move my appointment to Tuesday'')) = 4"
proof -
  let ?gw = "\<lambda>tr::transcript_message list. if length tr < 2
            then ToolCalls \<lparr>call_name = ''reschedule_appointment'',
                           call_arguments = ''Tuesday 10:00''\<rparr> []
            else Text ''Your appointment is moved to Tuesday at 10.''"
  let ?reg = "\<lambda>c. \<lparr>result_name = call_name c, result_success = True,
                     result_payload = ''rescheduled''\<rparr>"
  let ?res = "handleTurn 5 ?gw ?reg [] ''Please move my appointment to Tuesday''"
  have e: "ending ?res = Reply ''Your appointment is moved to Tuesday at 10.''"
    by (simp add: handleTurn_def iteration_messages_def eval_nat_numeral)
  have i: "tool_iterations ?gw ?res = [[UserText ''Please move my appointment to Tuesday'']]"
    by (simp add: handleTurn_def iteration_messages_def eval_nat_numeral tool_iterations_def
        requests_tools_def)
  have k: "length (tool_iterations ?gw ?res) \<le> 5"
    unfolding i by simp
  have c: "calls_requested ?gw [UserText ''Please move my appointment to Tuesday''] = 1"
    by (simp add: calls_requested_def)
  have "(\<forall>tr \<in> set (tool_iterations ?gw ?res). calls_requested ?gw tr = 1) \<longrightarrow>
          length (transcript ?res)
            = length ([]::transcript_message list) + 1
              + 2 * length (tool_iterations ?gw ?res) + 1"
    using transcript_length_of_completed_turn [OF e k] by blast
  then have "length (transcript ?res) = 4"
    unfolding i using c by simp
  with e k show ?thesis by blast
qed

text \<open>
  The length claimed for every completed turn fails when an iteration requests more than
  one tool call: with three requests in its one tool-call iteration, a turn on an empty
  session leaves six messages (the user message, the assistant message with the
  requests, three ToolResult messages and the final text), not four.
\<close>

theorem three_calls_in_one_iteration_counterexample:
  "ending (handleTurn 5
     (\<lambda>tr. if length tr = 1
            then ToolCalls \<lparr>call_name = ''lookup_patient'', call_arguments = ''Ann Lee''\<rparr>
                   [\<lparr>call_name = ''cancel_appointment'', call_arguments = ''Monday 9:00''\<rparr>,
                    \<lparr>call_name = ''create_appointment'', call_arguments = ''Tuesday 10:00''\<rparr>]
            else Text ''Done.'')
     (\<lambda>c. \<lparr>result_name = call_name c, result_success = True, result_payload = ''ok''\<rparr>)
     [] ''Please move my appointment to Tuesday'') = Reply ''Done.''
   \<and> length (tool_iterations
     (\<lambda>tr. if length tr = 1
            then ToolCalls \<lparr>call_name = ''lookup_patient'', call_arguments = ''Ann Lee''\<rparr>
                   [\<lparr>call_name = ''cancel_appointment'', call_arguments = ''Monday 9:00''\<rparr>,
                    \<lparr>call_name = ''create_appointment'', call_arguments = ''Tuesday 10:00''\<rparr>]
            else Text ''Done.'')
     (handleTurn 5
     (\<lambda>tr. if length tr = 1
            then ToolCalls \<lparr>call_name = ''lookup_patient'', call_arguments = ''Ann Lee''\<rparr>
                   [\<lparr>call_name = ''cancel_appointment'', call_arguments = ''Monday 9:00''\<rparr>,
                    \<lparr>call_name = ''create_appointment'', call_arguments = ''Tuesday 10:00''\<rparr>]
            else Text ''Done.'')
     (\<lambda>c. \<lparr>result_name = call_name c, result_success = True, result_payload = ''ok''\<rparr>)
     [] ''Please move my appointment to Tuesday'')) = 1
   \<and> length (transcript (handleTurn 5
     (\<lambda>tr. if length tr = 1
            then ToolCalls \<lparr>call_name = ''lookup_patient'', call_arguments = ''Ann Lee''\<rparr>
                   [\<lparr>call_name = ''cancel_appointment'', call_arguments = ''Monday 9:00''\<rparr>,
                    \<lparr>call_name = ''create_appointment'', call_arguments = ''Tuesday 10:00''\<rparr>]
            else Text ''Done.'')
     (\<lambda>c. \<lparr>result_name = call_name c, result_success = True, result_payload = ''ok''\<rparr>)
     [] ''Please move my appointment to Tuesday'')) = 6
   \<and> (6::nat) \<noteq> length ([]::transcript_message list) + 1 + 2 * 1 + 1"
  by (simp add: handleTurn_def iteration_messages_def eval_nat_numeral tool_iterations_def
        requests_tools_def)

text \<open>
  Claim C3. The loop calls the gateway at most as many times as the cap, whatever the
  gateway answers. The turn ends stalled exactly when every one of the iterations the
  cap allows was answered with tool calls; in particular a gateway that asks for tools
  on every call is called exactly cap times and the turn ends stalled, not with a text.
\<close>

theorem controller_loop_is_bounded:
  "length (gateway_inputs (handleTurn cap gw reg session u)) \<le> cap
   \<and> (ending (handleTurn cap gw reg session u) = ConversationStalled
        \<longleftrightarrow> length (tool_iterations gw (handleTurn cap gw reg session u)) = cap)
   \<and> ((\<forall>tr. requests_tools gw tr) \<longrightarrow>
        ending (handleTurn cap gw reg session u) = ConversationStalled
        \<and> length (gateway_inputs (handleTurn cap gw reg session u)) = cap)"
  using loop_inputs_bound [of cap gw reg "session @ [UserText u]" "[]"]
    loop_stalled_iff [of cap gw reg "session @ [UserText u]" "[]"]
    loop_always_calls [of gw cap reg "session @ [UserText u]" "[]"]
  by (simp add: handleTurn_def tool_iterations_def)


theorem controller_loop_is_bounded_witness:
  "ending (handleTurn 3
     (\<lambda>tr. ToolCalls \<lparr>call_name = ''lookup_patient'', call_arguments = ''Ann Lee''\<rparr> [])
     (\<lambda>c. \<lparr>result_name = call_name c, result_success = False, result_payload = ''not found''\<rparr>)
     [] ''Who am I?'') = ConversationStalled
   \<and> length (gateway_inputs (handleTurn 3
     (\<lambda>tr. ToolCalls \<lparr>call_name = ''lookup_patient'', call_arguments = ''Ann Lee''\<rparr> [])
     (\<lambda>c. \<lparr>result_name = call_name c, result_success = False, result_payload = ''not found''\<rparr>)
     [] ''Who am I?'')) = 3"
  using controller_loop_is_bounded [of 3
     "\<lambda>tr. ToolCalls \<lparr>call_name = ''lookup_patient'', call_arguments = ''Ann Lee''\<rparr> []"
     "\<lambda>c. \<lparr>result_name = call_name c, result_success = False, result_payload = ''not found''\<rparr>"
     "[]" "''Who am I?''"]
  by (simp add: requests_tools_def)

subsection \<open>The transcript from one iteration to the next\<close>

lemma loop_inputs_chain:
  "\<exists>new. gateway_inputs (controller_loop n gw reg tr seen) = seen @ new
      \<and> (n \<noteq> 0 \<longrightarrow> new \<noteq> [] \<and> new ! 0 = tr)
      \<and> (n = 0 \<longrightarrow> new = [])
      \<and> (\<forall>i. Suc i < length new \<longrightarrow>
            requests_tools gw (new ! i) \<and> new ! Suc i = new ! i @ produced gw reg (new ! i))
      \<and> transcript (controller_loop n gw reg tr seen)
          = (if new = [] then tr else last new @ produced gw reg (last new))"
proof (induction n arbitrary: tr seen)
  case 0
  show ?case by simp
next
  case (Suc n)
  show ?case
  proof (cases "gw tr")
    case (Text s)
    then show ?thesis by (simp add: produced_def)
  next
    case (GatewayFailed e)
    then show ?thesis by (simp add: produced_def)
  next
    case (ToolCalls c cs)
    let ?tr' = "tr @ iteration_messages reg (c # cs)"
    let ?res = "controller_loop n gw reg ?tr' (seen @ [tr])"
    have p: "produced gw reg tr = iteration_messages reg (c # cs)"
      using ToolCalls by (simp add: produced_def)
    have q: "requests_tools gw tr"
      using ToolCalls by (simp add: requests_tools_def)
    obtain new where g: "gateway_inputs ?res = (seen @ [tr]) @ new"
      and h: "n \<noteq> 0 \<longrightarrow> new \<noteq> [] \<and> new ! 0 = ?tr'"
      and z: "n = 0 \<longrightarrow> new = []"
      and ch: "\<forall>i. Suc i < length new \<longrightarrow>
            requests_tools gw (new ! i) \<and> new ! Suc i = new ! i @ produced gw reg (new ! i)"
      and t: "transcript ?res = (if new = [] then ?tr' else last new @ produced gw reg (last new))"
      using Suc.IH [of ?tr' "seen @ [tr]"] by blast
    have r: "controller_loop (Suc n) gw reg tr seen = ?res"
      using ToolCalls by simp
    have c: "requests_tools gw ((tr # new) ! i)
        \<and> (tr # new) ! Suc i = (tr # new) ! i @ produced gw reg ((tr # new) ! i)"
      if "Suc i < length (tr # new)" for i
    proof (cases i)
      case 0
      with that have "new \<noteq> []" by auto
      with z h have "new ! 0 = ?tr'" by blast
      with 0 p q show ?thesis by simp
    next
      case (Suc j)
      with that ch show ?thesis by simp
    qed
    have "gateway_inputs ?res = seen @ (tr # new)" using g by simp
    moreover have "transcript ?res
        = (if tr # new = [] then tr else last (tr # new) @ produced gw reg (last (tr # new)))"
      using t p by simp
    ultimately show ?thesis
      unfolding r using c by (intro exI [of _ "tr # new"]) simp
  qed
qed

text \<open>
  Claim C4. In a turn, the first call of the gateway is made with the session's
  transcript and the user message. The transcript passed to the gateway at iteration
  \<open>N + 1\<close> is the transcript passed at iteration \<open>N\<close>, unchanged, with the messages
  produced during iteration \<open>N\<close> at its end: the assistant message with the requests of
  that iteration and the ToolResult messages of its calls. The transcript the turn
  leaves is the last one passed with the messages of the last iteration.
\<close>

theorem gateway_inputs_grow_by_the_iteration:
  "(gateway_inputs (handleTurn cap gw reg session u) \<noteq> [] \<longrightarrow>
      gateway_inputs (handleTurn cap gw reg session u) ! 0 = session @ [UserText u])
   \<and> (Suc N < length (gateway_inputs (handleTurn cap gw reg session u)) \<longrightarrow>
        gateway_inputs (handleTurn cap gw reg session u) ! Suc N
            = gateway_inputs (handleTurn cap gw reg session u) ! N
              @ produced gw reg (gateway_inputs (handleTurn cap gw reg session u) ! N)
        \<and> (\<exists>c cs. gw (gateway_inputs (handleTurn cap gw reg session u) ! N) = ToolCalls c cs
              \<and> produced gw reg (gateway_inputs (handleTurn cap gw reg session u) ! N)
                  = AssistantCalls (c # cs) # map (\<lambda>c. ToolMessage (reg c)) (c # cs))
        \<and> prefix (gateway_inputs (handleTurn cap gw reg session u) ! N)
                  (gateway_inputs (handleTurn cap gw reg session u) ! Suc N))
   \<and> (gateway_inputs (handleTurn cap gw reg session u) \<noteq> [] \<longrightarrow>
        transcript (handleTurn cap gw reg session u)
          = last (gateway_inputs (handleTurn cap gw reg session u))
            @ produced gw reg (last (gateway_inputs (handleTurn cap gw reg session u))))"
proof -
  let ?gi = "gateway_inputs (handleTurn cap gw reg session u)"
  obtain new where g: "?gi = new"
    and h: "cap \<noteq> 0 \<longrightarrow> new \<noteq> [] \<and> new ! 0 = session @ [UserText u]"
    and z: "cap = 0 \<longrightarrow> new = []"
    and ch: "\<forall>i. Suc i < length new \<longrightarrow>
          requests_tools gw (new ! i) \<and> new ! Suc i = new ! i @ produced gw reg (new ! i)"
    and t: "transcript (handleTurn cap gw reg session u)
        = (if new = [] then session @ [UserText u]
           else last new @ produced gw reg (last new))"
    using loop_inputs_chain [of cap gw reg "session @ [UserText u]" "[]"]
    by (auto simp: handleTurn_def)
  have a: "?gi \<noteq> [] \<longrightarrow> ?gi ! 0 = session @ [UserText u]"
    using g h z by blast
  have b: "?gi ! Suc N = ?gi ! N @ produced gw reg (?gi ! N)
        \<and> (\<exists>c cs. gw (?gi ! N) = ToolCalls c cs
              \<and> produced gw reg (?gi ! N)
                  = AssistantCalls (c # cs) # map (\<lambda>c. ToolMessage (reg c)) (c # cs))
        \<and> prefix (?gi ! N) (?gi ! Suc N)"
    if "Suc N < length ?gi"
  proof -
    from that g ch have r: "requests_tools gw (?gi ! N)"
      and e: "?gi ! Suc N = ?gi ! N @ produced gw reg (?gi ! N)"
      by simp_all
    from r obtain c cs where "gw (?gi ! N) = ToolCalls c cs"
      by (auto simp: requests_tools_def split: gateway_response.splits)
    then have "gw (?gi ! N) = ToolCalls c cs
        \<and> produced gw reg (?gi ! N)
            = AssistantCalls (c # cs) # map (\<lambda>c. ToolMessage (reg c)) (c # cs)"
      by (simp add: produced_def iteration_messages_def)
    then have "\<exists>c cs. gw (?gi ! N) = ToolCalls c cs
        \<and> produced gw reg (?gi ! N)
            = AssistantCalls (c # cs) # map (\<lambda>c. ToolMessage (reg c)) (c # cs)"
      by blast
    moreover have "prefix (?gi ! N) (?gi ! Suc N)"
      using e by (simp add: prefix_def)
    ultimately show ?thesis using e by blast
  qed
  have c: "?gi \<noteq> [] \<longrightarrow>
      transcript (handleTurn cap gw reg session u) = last ?gi @ produced gw reg (last ?gi)"
    using g t by simp
  from a b c show ?thesis by blast
qed

theorem gateway_inputs_grow_by_the_iteration_witness:
  "Suc 0 < length (gateway_inputs (handleTurn 5
     (\<lambda>tr. if length tr < 2
            then ToolCalls \<lparr>call_name = ''reschedule_appointment'',
                           call_arguments = ''Tuesday 10:00''\<rparr> []
            else Text ''Your appointment is moved to Tuesday at 10.'')
     (\<lambda>c. \<lparr>result_name = call_name c, result_success = True, result_payload = ''rescheduled''\<rparr>)
     [] ''Please move my appointment to Tuesday''))
   \<and> gateway_inputs (handleTurn 5
     (\<lambda>tr. if length tr < 2
            then ToolCalls \<lparr>call_name = ''reschedule_appointment'',
                           call_arguments = ''Tuesday 10:00''\<rparr> []
            else Text ''Your appointment is moved to Tuesday at 10.'')
     (\<lambda>c. \<lparr>result_name = call_name c, result_success = True, result_payload = ''rescheduled''\<rparr>)
     [] ''Please move my appointment to Tuesday'') ! Suc 0
     = [UserText ''Please move my appointment to Tuesday'',
        AssistantCalls [\<lparr>call_name = ''reschedule_appointment'',
                         call_arguments = ''Tuesday 10:00''\<rparr>],
        ToolMessage \<lparr>result_name = ''reschedule_appointment'', result_success = True,
                     result_payload = ''rescheduled''\<rparr>]"
proof -
  let ?gw = "\<lambda>tr::transcript_message list. if length tr < 2
            then ToolCalls \<lparr>call_name = ''reschedule_appointment'',
                           call_arguments = ''Tuesday 10:00''\<rparr> []
            else Text ''Your appointment is moved to Tuesday at 10.''"
  let ?reg = "\<lambda>c. \<lparr>result_name = call_name c, result_success = True,
                     result_payload = ''rescheduled''\<rparr>"
  let ?gi = "gateway_inputs (handleTurn 5 ?gw ?reg [] ''Please move my appointment to Tuesday'')"
  note grow = gateway_inputs_grow_by_the_iteration
      [of 5 ?gw ?reg "[]" "''Please move my appointment to Tuesday''" 0]
  have l: "length ?gi = 2"
    by (simp add: handleTurn_def iteration_messages_def eval_nat_numeral)
  then have l1: "Suc 0 < length ?gi" and ne: "?gi \<noteq> []" by auto
  have f: "?gi ! 0 = [UserText ''Please move my appointment to Tuesday'']"
    using grow [THEN conjunct1] ne by simp
  have "?gi ! Suc 0 = ?gi ! 0 @ produced ?gw ?reg (?gi ! 0)"
    using grow l1 by blast
  then have "?gi ! Suc 0 = [UserText ''Please move my appointment to Tuesday'',
        AssistantCalls [\<lparr>call_name = ''reschedule_appointment'',
                         call_arguments = ''Tuesday 10:00''\<rparr>],
        ToolMessage \<lparr>result_name = ''reschedule_appointment'', result_success = True,
                     result_payload = ''rescheduled''\<rparr>]"
    unfolding f by (simp add: produced_def iteration_messages_def)
  with l1 show ?thesis by (rule conjI)
qed

end
